theory Spec2Isabelle
  imports Main
begin

section \<open>Connection contract validation (cerber-connections-check.sh)\<close>

text \<open>
  The script walks the files \<^verbatim>\<open>.cerber/connections/contracts/*.json\<close>, keeps three
  counters (\<^verbatim>\<open>ERRORS\<close>, \<^verbatim>\<open>WARNINGS\<close>, \<^verbatim>\<open>CHECKED\<close>) and an associative array
  \<^verbatim>\<open>connections\<close>, prints one line for every problem it counts, and exits with 1
  exactly when \<^verbatim>\<open>ERRORS\<close> is not zero.

  A contract file is modelled by what the script reads off it: the test \<^verbatim>\<open>[ -f ]\<close>,
  the outcome of the JSON syntax check (\<^verbatim>\<open>python3 -m json.tool\<close> or node's
  \<^verbatim>\<open>JSON.parse\<close> accepts the file), the two values extracted by \<^verbatim>\<open>grep -o | head -1 | sed\<close>
  (the empty string when the field is not found; the script does not tell a missing
  field from an empty value) and the three \<^verbatim>\<open>grep -q\<close> tests.
  The file system test \<^verbatim>\<open>[ -d ".cerber/modules/NAME" ]\<close> is a parameter
  \<open>module_exists\<close>. The counters are natural numbers: they count files and fields.
\<close>

record contract =
  is_file :: bool
  json_ok :: bool
  from_module :: string
  to_module :: string
  has_interface :: bool
  has_version :: bool
  has_breaking_changes :: bool

text \<open>
  The lines the script prints together with a counter increment. The first three go
  with \<^verbatim>\<open>ERRORS\<close>, the other four with \<^verbatim>\<open>WARNINGS\<close>.
\<close>

datatype finding =
    InvalidJson
  | MissingFromTo
  | ModuleNotFound string
  | MissingInterface
  | MissingVersion
  | MissingBreakingChanges
  | Circular string string

record state =
  ERRORS :: nat
  WARNINGS :: nat
  CHECKED :: nat
  connections :: "string list"
  report :: "finding list"

definition init :: state where
  "init = \<lparr>ERRORS = 0, WARNINGS = 0, CHECKED = 0, connections = [], report = []\<rparr>"

definition add_error :: "finding \<Rightarrow> state \<Rightarrow> state" where
  "add_error f s = s\<lparr>ERRORS := ERRORS s + 1, report := report s @ [f]\<rparr>"

definition add_warning :: "finding \<Rightarrow> state \<Rightarrow> state" where
  "add_warning f s = s\<lparr>WARNINGS := WARNINGS s + 1, report := report s @ [f]\<rparr>"

text \<open>
  The key \<^verbatim>\<open>"${FROM_MODULE}->${TO_MODULE}"\<close> and the assignment
  \<^verbatim>\<open>connections[key]=1\<close>. The array holds every key once; the model keeps the keys
  in the order of their first assignment (bash leaves the order of
  \<^verbatim>\<open>"${!connections[@]}"\<close> open, and the counters do not depend on it).
\<close>

definition conn_key :: "string \<Rightarrow> string \<Rightarrow> string" where
  "conn_key f t = f @ ''->'' @ t"

definition store :: "string \<Rightarrow> string list \<Rightarrow> string list" where
  "store k ks = (if k \<in> set ks then ks else ks @ [k])"

text \<open>Lines 94 to 117: the two directory tests and their messages.\<close>

definition check_modules :: "(string \<Rightarrow> bool) \<Rightarrow> string \<Rightarrow> string \<Rightarrow> state \<Rightarrow> state" where
  "check_modules module_exists f t s =
     (if module_exists f \<and> module_exists t then s
      else (let s1 = (if \<not> module_exists f then add_error (ModuleNotFound f) s else s)
            in (if \<not> module_exists t then add_error (ModuleNotFound t) s1 else s1)))"

text \<open>Lines 119 to 137: the recommended fields.\<close>

definition check_fields :: "contract \<Rightarrow> state \<Rightarrow> state" where
  "check_fields c s =
     (let s1 = (if \<not> has_interface c then add_warning MissingInterface s else s);
          s2 = (if \<not> has_version c then add_warning MissingVersion s1 else s1)
      in (if \<not> has_breaking_changes c then add_warning MissingBreakingChanges s2 else s2))"

text \<open>The body of the loop over the contract files (lines 63 to 140), with its three \<^verbatim>\<open>continue\<close>.\<close>

definition check_contract :: "(string \<Rightarrow> bool) \<Rightarrow> contract \<Rightarrow> state \<Rightarrow> state" where
  "check_contract module_exists c s =
     (if \<not> is_file c then s
      else (let s1 = s\<lparr>CHECKED := CHECKED s + 1\<rparr> in
        if \<not> json_ok c then add_error InvalidJson s1
        else if from_module c = [] \<or> to_module c = [] then add_error MissingFromTo s1
        else (let s2 = s1\<lparr>connections :=
                          store (conn_key (from_module c) (to_module c)) (connections s1)\<rparr>
              in check_fields c (check_modules module_exists (from_module c) (to_module c) s2))))"

definition check_contracts :: "(string \<Rightarrow> bool) \<Rightarrow> contract list \<Rightarrow> state \<Rightarrow> state" where
  "check_contracts module_exists cs s = fold (check_contract module_exists) cs s"

text \<open>
  \<^verbatim>\<open>cut -dD -f1\<close> and \<^verbatim>\<open>cut -dD -f2\<close> on one line: the fields are the pieces between
  delimiters, and a line without the delimiter is printed whole.
\<close>

definition cut_f1 :: "char \<Rightarrow> string \<Rightarrow> string" where
  "cut_f1 d l = takeWhile (\<lambda>c. c \<noteq> d) l"

definition cut_f2 :: "char \<Rightarrow> string \<Rightarrow> string" where
  "cut_f2 d l =
     (if d \<in> set l then takeWhile (\<lambda>c. c \<noteq> d) (tl (dropWhile (\<lambda>c. c \<noteq> d) l)) else l)"

text \<open>The circular dependency check (lines 143 to 156): one pass over the keys.\<close>

definition circular_step :: "string list \<Rightarrow> string \<Rightarrow> state \<Rightarrow> state" where
  "circular_step keys key s =
     (let FROM = cut_f1 CHR ''-'' key; TO = cut_f2 CHR ''>'' key
      in (if conn_key TO FROM \<in> set keys then add_warning (Circular FROM TO) s else s))"

definition check_circular :: "state \<Rightarrow> state" where
  "check_circular s = fold (circular_step (connections s)) (connections s) s"

text \<open>The summary (lines 166 to 186).\<close>

definition exit_code :: "state \<Rightarrow> nat" where
  "exit_code s =
     (if ERRORS s = 0 \<and> WARNINGS s = 0 then 0
      else if ERRORS s = 0 then 0
      else 1)"

text \<open>
  The contracts directory: \<open>contracts\<close> is the expansion of the glob
  \<^verbatim>\<open>"$CONNECTIONS_DIR"/*.json\<close>, \<open>other_json\<close> counts the further names that
  \<^verbatim>\<open>find -name "*.json"\<close> reports (in subdirectories, or hidden), so that
  \<^verbatim>\<open>CONTRACT_COUNT\<close> is their sum. \<open>None\<close> is a missing directory.
\<close>

record contracts_dir =
  contracts :: "contract list"
  other_json :: nat

definition validate :: "(string \<Rightarrow> bool) \<Rightarrow> contract list \<Rightarrow> state" where
  "validate module_exists cs = check_circular (check_contracts module_exists cs init)"

definition run :: "(string \<Rightarrow> bool) \<Rightarrow> contracts_dir option \<Rightarrow> nat \<times> state" where
  "run module_exists dir =
     (case dir of
        None \<Rightarrow> (0, init)
      | Some d \<Rightarrow>
          (if length (contracts d) + other_json d = 0 then (0, init)
           else (let s = validate module_exists (contracts d) in (exit_code s, s))))"

text \<open>A well-formed contract file declaring \<open>f -> t\<close>, with all recommended fields.\<close>

definition connection :: "string \<Rightarrow> string \<Rightarrow> contract" where
  "connection f t = \<lparr>is_file = True, json_ok = True, from_module = f, to_module = t,
     has_interface = True, has_version = True, has_breaking_changes = True\<rparr>"


text \<open>
  A modules directory holding exactly the listed subdirectories, for concrete runs.
\<close>

definition registered :: "string list \<Rightarrow> string \<Rightarrow> bool" where
  "registered ms n \<longleftrightarrow> n \<in> set ms"

subsection \<open>Reading the report\<close>

text \<open>
  The script prints error lines in red with a cross and warning lines in yellow with a
  warning sign; the spec's third severity, critical, is never used by it.
\<close>

datatype severity = Warning | Error | Critical

fun severity_of :: "finding \<Rightarrow> severity" where
  "severity_of InvalidJson = Error"
| "severity_of MissingFromTo = Error"
| "severity_of (ModuleNotFound m) = Error"
| "severity_of MissingInterface = Warning"
| "severity_of MissingVersion = Warning"
| "severity_of MissingBreakingChanges = Warning"
| "severity_of (Circular a b) = Warning"

definition count_severity :: "finding list \<Rightarrow> severity \<Rightarrow> nat" where
  "count_severity fs s = length (filter (\<lambda>f. severity_of f = s) fs)"

fun is_circular :: "finding \<Rightarrow> bool" where
  "is_circular (Circular a b) = True"
| "is_circular _ = False"

definition circular_findings :: "state \<Rightarrow> finding list" where
  "circular_findings s = filter is_circular (report s)"

text \<open>What the loop body prints for the two module tests and for the recommended fields.\<close>

definition module_findings :: "(string \<Rightarrow> bool) \<Rightarrow> string \<Rightarrow> string \<Rightarrow> finding list" where
  "module_findings module_exists f t =
     (if module_exists f then [] else [ModuleNotFound f]) @
     (if module_exists t then [] else [ModuleNotFound t])"

definition field_findings :: "contract \<Rightarrow> finding list" where
  "field_findings c =
     (if has_interface c then [] else [MissingInterface]) @
     (if has_version c then [] else [MissingVersion]) @
     (if has_breaking_changes c then [] else [MissingBreakingChanges])"

text \<open>A contract file that gets past the three \<^verbatim>\<open>continue\<close> of the loop body.\<close>

definition reaches_checks :: "contract \<Rightarrow> bool" where
  "reaches_checks c \<longleftrightarrow> is_file c \<and> json_ok c \<and> from_module c \<noteq> [] \<and> to_module c \<noteq> []"

text \<open>The warnings of one pass of the circular check over \<open>ks\<close> against the key set \<open>keys\<close>.\<close>

definition circular_of :: "string list \<Rightarrow> string list \<Rightarrow> finding list" where
  "circular_of keys ks =
     map (\<lambda>k. Circular (cut_f1 CHR ''-'' k) (cut_f2 CHR ''>'' k))
       (filter (\<lambda>k. conn_key (cut_f2 CHR ''>'' k) (cut_f1 CHR ''-'' k) \<in> set keys) ks)"

subsection \<open>The severity aggregator of the spec\<close>

text \<open>
  The decision rule of section 4.2 in the spec's words, to compare the script's exit
  code with: the result is a failure if and only if there is a finding whose severity is
  enabled in \<open>failOn\<close> and whose severity's count is not zero; the counts are reported
  for all severities. \<open>health_failOn\<close> is the \<^verbatim>\<open>failOn\<close> block of CERBER.md
  (lines 19 to 22).
\<close>

record failOn =
  critical :: bool
  error :: bool
  warning :: bool

record evaluation =
  ok :: bool
  counts :: "severity \<Rightarrow> nat"

definition fail_enabled :: "failOn \<Rightarrow> severity \<Rightarrow> bool" where
  "fail_enabled fo s = (case s of Critical \<Rightarrow> critical fo | Error \<Rightarrow> error fo | Warning \<Rightarrow> warning fo)"

definition spec_evaluate :: "finding list \<Rightarrow> failOn \<Rightarrow> evaluation" where
  "spec_evaluate fs fo =
     \<lparr>ok = \<not> list_ex (\<lambda>f. fail_enabled fo (severity_of f) \<and> count_severity fs (severity_of f) \<noteq> 0) fs,
      counts = count_severity fs\<rparr>"

definition health_failOn :: failOn where
  "health_failOn = \<lparr>critical = True, error = True, warning = False\<rparr>"

section \<open>Module system API (team/lib/module-system.ts)\<close>

text \<open>
  The interfaces of the file are records (a field whose name Isabelle reserves, or that
  another record of this theory has, carries a prefix), a thrown \<^verbatim>\<open>Error\<close> is the left
  summand of the result with its message, and a function without parameters takes \<open>unit\<close>.
\<close>

datatype js_error = JsError string

datatype module_status = active | deprecated | planned

record Module =
  mod_name :: string
  mod_owner :: string
  mod_status :: module_status
  mod_path :: string

record FunctionSignature =
  signature_name :: string
  params :: "(string \<times> string) list"
  returns :: string
  signature_description :: string

record ModuleContract =
  contract_version :: string
  publicInterface :: "(string \<times> FunctionSignature) list"
  dependencies :: "string list"

datatype connection_type = function_call | event | data_flow

record Connection =
  connection_id :: string
  connection_from :: string
  connection_to :: string
  connection_type :: connection_type
  connection_interface :: string
  connection_version :: "string option"
  breaking_changes :: "string list option"
  connection_notes :: "string option"

record ValidationResult =
  valid :: bool
  errors :: "string list"
  warnings :: "string list"

definition loadModule :: "string \<Rightarrow> js_error + Module" where
  "loadModule moduleName = Inl (JsError ''Not implemented - use bash scripts for now'')"

definition loadContract :: "string \<Rightarrow> js_error + ModuleContract" where
  "loadContract moduleName = Inl (JsError ''Not implemented - use bash scripts for now'')"

definition validateModule :: "string \<Rightarrow> js_error + ValidationResult" where
  "validateModule moduleName = Inl (JsError ''Not implemented - use cerber-module-check.sh'')"

definition validateConnections :: "unit \<Rightarrow> js_error + ValidationResult list" where
  "validateConnections u = Inl (JsError ''Not implemented - use cerber-connections-check.sh'')"

definition createFocusContext :: "string \<Rightarrow> js_error + string" where
  "createFocusContext moduleName = Inl (JsError ''Not implemented - use cerber-focus.sh'')"

definition listModules :: "unit \<Rightarrow> js_error + Module list" where
  "listModules u = Inl (JsError ''Not implemented - use bash to list .cerber/modules'')"

definition getModuleDependencies :: "string \<Rightarrow> js_error + string list" where
  "getModuleDependencies moduleName = Inl (JsError ''Not implemented - parse dependencies.json directly'')"

definition detectCircularDependencies :: "unit \<Rightarrow> js_error + string list list" where
  "detectCircularDependencies u = Inl (JsError ''Not implemented - use cerber-connections-check.sh'')"

definition getModuleConnections :: "string \<Rightarrow> js_error + Connection list" where
  "getModuleConnections moduleName = Inl (JsError ''Not implemented - grep .cerber/connections/contracts'')"

text \<open>The call throws, and the message of the error begins with \<^verbatim>\<open>Not implemented\<close>.\<close>

fun throws_not_implemented :: "js_error + 'a \<Rightarrow> bool" where
  "throws_not_implemented (Inl (JsError msg)) = (take 15 msg = ''Not implemented'')"
| "throws_not_implemented (Inr v) = False"

section \<open>Feature flags (solo/lib/feature-flags.ts)\<close>

text \<open>
  The configuration is the module-level variable \<^verbatim>\<open>featureFlags\<close>, an object from
  flag names to flag configurations; it is passed to \<open>isFeatureEnabled\<close> together
  with what else the function reads: \<^verbatim>\<open>process.env.NODE_ENV\<close> (\<open>None\<close> when it is not
  set) and the clock. An optional field is an \<open>option\<close>. A date is its time value in
  milliseconds since the epoch, \<open>None\<close> for an invalid date; the parser of date strings
  is the parameter \<open>parse\<close>, and the empty string is never a date. A comparison with an
  invalid date is false, as a comparison with \<^verbatim>\<open>NaN\<close> is.
\<close>

record FlagConfig =
  enabled :: bool
  description :: string
  owner :: string
  expiresAt :: "string option"
  environments :: "string list option"

type_synonym FeatureFlagsConfig = "string \<rightharpoonup> FlagConfig"

definition defaultFlags :: FeatureFlagsConfig where
  "defaultFlags = [''example-feature'' \<mapsto>
     \<lparr>enabled = False, description = ''Example feature flag'', owner = ''team'',
      expiresAt = None, environments = Some [''development'']\<rparr>]"

definition initializeFeatureFlags :: "FeatureFlagsConfig \<Rightarrow> FeatureFlagsConfig" where
  "initializeFeatureFlags config = defaultFlags ++ config"

text \<open>\<^verbatim>\<open>process.env.NODE_ENV || "development"\<close>: the default replaces every falsy value.\<close>

definition currentEnv :: "string option \<Rightarrow> string" where
  "currentEnv NODE_ENV =
     (case NODE_ENV of None \<Rightarrow> ''development''
      | Some e \<Rightarrow> (if e = [] then ''development'' else e))"

definition new_Date :: "(string \<Rightarrow> int option) \<Rightarrow> string \<Rightarrow> int option" where
  "new_Date parse s = (if s = [] then None else parse s)"

text \<open>\<^verbatim>\<open>now > expiryDate\<close>.\<close>

definition later_than :: "int \<Rightarrow> int option \<Rightarrow> bool" where
  "later_than now d = (case d of None \<Rightarrow> False | Some t \<Rightarrow> now > t)"

definition isFeatureEnabled ::
  "FeatureFlagsConfig \<Rightarrow> string option \<Rightarrow> (string \<Rightarrow> int option) \<Rightarrow> int \<Rightarrow> string \<Rightarrow> bool" where
  "isFeatureEnabled featureFlags NODE_ENV parse now flag =
     (case featureFlags flag of
        None \<Rightarrow> False
      | Some config \<Rightarrow>
          (if \<not> enabled config then False
           else if (case environments config of
                      None \<Rightarrow> False
                    | Some envs \<Rightarrow> length envs > 0 \<and> currentEnv NODE_ENV \<notin> set envs)
             then False
           else if (case expiresAt config of
                      None \<Rightarrow> False
                    | Some e \<Rightarrow> e \<noteq> [] \<and> later_than now (new_Date parse e))
             then False
           else True))"

text \<open>
  A configuration with one flag, and a date parser that knows its expiry date
  (2030-01-01, in milliseconds since the epoch), for concrete runs.
\<close>

definition example_config :: FeatureFlagsConfig where
  "example_config = [''new-ui'' \<mapsto>
     \<lparr>enabled = True, description = ''New user interface'', owner = ''team'',
      expiresAt = Some ''2030-01-01'', environments = Some [''development'', ''staging'']\<rparr>]"

definition example_parse :: "string \<Rightarrow> int option" where
  "example_parse s = (if s = ''2030-01-01'' then Some 1893456000000 else None)"

section \<open>Adding a module (cerber-add-module.sh)\<close>

text \<open>
  The module registry of the scripts is the directory \<^verbatim>\<open>.cerber/modules\<close>: one
  directory per module, named after it, holding \<^verbatim>\<open>MODULE.md\<close>, \<^verbatim>\<open>contract.json\<close>
  and \<^verbatim>\<open>dependencies.json\<close>. It is modelled as a map from module names to
  directories, a directory being a map from file names to contents. The text written
  to \<^verbatim>\<open>MODULE.md\<close> (the instantiated template, or the built-in text when there is
  no template) is the parameter \<open>module_md\<close>. The lines the script prints and its
  edit of \<^verbatim>\<open>.cerber/BIBLE.md\<close>, which is not part of the registry, are left out.

  The two guards at the head of the script are modelled for every name. The creation
  of a new module is modelled for names of the script's naming convention (kebab-case:
  one path component, nothing that \<^verbatim>\<open>sed\<close> reads as syntax). For a name with a slash
  the script does more than the model says: \<^verbatim>\<open>mkdir -p\<close> creates the parent
  directories too, and with a template the substitution by \<^verbatim>\<open>sed\<close> fails, so that
  under \<^verbatim>\<open>set -e\<close> the script stops with a code other than 0 after writing
  \<^verbatim>\<open>MODULE.md\<close> alone. Nothing below is stated about the creation of such names.
\<close>

type_synonym module_dir = "string \<rightharpoonup> string"

type_synonym modules = "string \<rightharpoonup> module_dir"

definition unlines :: "string list \<Rightarrow> string" where
  "unlines ls = concat (map (\<lambda>l. l @ [CHR 0x0A]) ls)"

definition contract_json :: string where
  \<open>contract_json = unlines [''{'', ''  "version": "1.0.0",'', ''  "publicInterface": {},'',
     ''  "dependencies": []'', ''}'']\<close>

definition dependencies_json :: string where
  \<open>dependencies_json = unlines [''{'', ''  "dependencies": []'', ''}'']\<close>

definition new_module_dir :: "string \<Rightarrow> module_dir" where
  "new_module_dir module_md =
     [''MODULE.md'' \<mapsto> module_md, ''contract.json'' \<mapsto> contract_json,
      ''dependencies.json'' \<mapsto> dependencies_json]"

text \<open>
  The script returns its exit code and leaves the registry as its effect: 1 when no
  name is given (line 21), 1 when the module directory exists already (line 46),
  otherwise (for a name of the naming convention) the directory is created with its
  three files and the code is 0.
\<close>

definition add_module :: "string \<Rightarrow> string \<Rightarrow> modules \<Rightarrow> nat \<times> modules" where
  "add_module module_md MODULE_NAME fs =
     (if MODULE_NAME = [] then (1, fs)
      else if fs MODULE_NAME \<noteq> None then (1, fs)
      else (0, fs(MODULE_NAME \<mapsto> new_module_dir module_md)))"

definition no_modules :: modules where
  "no_modules = Map.empty"

section \<open>Pattern matcher of the spec\<close>

text \<open>
  Modelled from the spec: the Pattern Matcher (\<open>scan\<close>, section 4.1) with its rules,
  findings, exception globs and pattern engine. The sources hold only rule schemas
  (the \<^verbatim>\<open>forbiddenPatterns\<close> of the example \<^verbatim>\<open>BACKEND_SCHEMA\<close>), no scanner.

  Patterns are regular expressions over bytes with character classes; a pattern is
  searched from left to right, each match being the longest one at its start, and the
  search goes on behind it (one byte further after an empty match).
\<close>

datatype regex =
    Zero
  | Eps
  | OneOf "char list"
  | NoneOf "char list"
  | Seq regex regex
  | Alt regex regex
  | Star regex
  | Plus regex

fun nullable :: "regex \<Rightarrow> bool" where
  "nullable Zero = False"
| "nullable Eps = True"
| "nullable (OneOf cs) = False"
| "nullable (NoneOf cs) = False"
| "nullable (Seq r s) = (nullable r \<and> nullable s)"
| "nullable (Alt r s) = (nullable r \<or> nullable s)"
| "nullable (Star r) = True"
| "nullable (Plus r) = nullable r"

fun deriv :: "char \<Rightarrow> regex \<Rightarrow> regex" where
  "deriv c Zero = Zero"
| "deriv c Eps = Zero"
| "deriv c (OneOf cs) = (if c \<in> set cs then Eps else Zero)"
| "deriv c (NoneOf cs) = (if c \<in> set cs then Zero else Eps)"
| "deriv c (Seq r s) =
     (if nullable r then Alt (Seq (deriv c r) s) (deriv c s) else Seq (deriv c r) s)"
| "deriv c (Alt r s) = Alt (deriv c r) (deriv c s)"
| "deriv c (Star r) = Seq (deriv c r) (Star r)"
| "deriv c (Plus r) = Seq (deriv c r) (Star r)"

text \<open>Modelled from the spec: the length of the longest match of a pattern at the start of a text.\<close>

fun longest :: "regex \<Rightarrow> string \<Rightarrow> nat option" where
  "longest r [] = (if nullable r then Some 0 else None)"
| "longest r (c # cs) =
     (case longest (deriv c r) cs of
        Some n \<Rightarrow> Some (Suc n)
      | None \<Rightarrow> (if nullable r then Some 0 else None))"

text \<open>Modelled from the spec: the number of matches of a pattern in a text (one finding per match).\<close>

function count_matches :: "regex \<Rightarrow> string \<Rightarrow> nat" where
  "count_matches r [] = (if nullable r then 1 else 0)"
| "count_matches r (c # cs) =
     (case longest r (c # cs) of
        None \<Rightarrow> count_matches r cs
      | Some n \<Rightarrow> Suc (count_matches r (drop (n - 1) cs)))"
  by pat_completeness auto
termination
  by (relation "measure (\<lambda>(r, s). length s)") auto

text \<open>
  Modelled from the spec: globs over relative paths. \<^verbatim>\<open>**\<close> stands for any text,
  \<^verbatim>\<open>*\<close> for any text without a slash, \<^verbatim>\<open>?\<close> for one byte other than a slash.
\<close>

fun glob_match :: "string \<Rightarrow> string \<Rightarrow> bool" where
  "glob_match [] [] = True"
| "glob_match [] (c # cs) = False"
| "glob_match (g # gs) [] =
     (g = CHR ''*'' \<and> glob_match gs [])"
| "glob_match (g # gs) (c # cs) =
     (if g = CHR ''*'' \<and> (case gs of h # hs \<Rightarrow> h = CHR ''*'' | [] \<Rightarrow> False)
        then glob_match (tl gs) (c # cs) \<or> glob_match (g # gs) cs
      else if g = CHR ''*''
        then glob_match gs (c # cs) \<or> (c \<noteq> CHR ''/'' \<and> glob_match (g # gs) cs)
      else if g = CHR ''?''
        then c \<noteq> CHR ''/'' \<and> glob_match gs cs
      else g = c \<and> glob_match gs cs)"

text \<open>Modelled from the spec: the Rule and Finding of the data model (section 3).\<close>

record Rule =
  pattern :: regex
  name :: string
  severity :: severity
  exceptions :: "string list"
  appliesTo :: "string option"

record Finding =
  rule :: "Rule option"
  file_path :: string
  finding_severity :: severity
  message :: string

definition excepted :: "Rule \<Rightarrow> string \<Rightarrow> bool" where
  "excepted r path = list_ex (\<lambda>g. glob_match g path) (exceptions r)"

definition in_scope :: "Rule \<Rightarrow> string \<Rightarrow> bool" where
  "in_scope r path = (case appliesTo r of None \<Rightarrow> True | Some g \<Rightarrow> glob_match g path)"

text \<open>
  Modelled from the spec: one rule on one readable file. A file that matches one of the
  rule's exception globs, or lies outside \<open>appliesTo\<close>, is skipped; otherwise every
  match of the pattern is one finding of the rule's severity.
\<close>

definition scan_rule :: "Rule \<Rightarrow> string \<Rightarrow> string \<Rightarrow> Finding list" where
  "scan_rule r path text =
     (if excepted r path \<or> \<not> in_scope r path then []
      else replicate (count_matches (pattern r) text)
             \<lparr>rule = Some r, file_path = path, finding_severity = severity r, message = name r\<rparr>)"

text \<open>
  Modelled from the spec: one file under all rules, in rule order. A file that cannot
  be read (\<open>None\<close>) gives one scan-error finding of severity warning and the scan goes on.
\<close>

definition scan_file :: "Rule list \<Rightarrow> string \<times> string option \<Rightarrow> Finding list" where
  "scan_file rules f =
     (case snd f of
        None \<Rightarrow> [\<lparr>rule = None, file_path = fst f, finding_severity = Warning, message = ''scan-error''\<rparr>]
      | Some text \<Rightarrow> concat (map (\<lambda>r. scan_rule r (fst f) text) rules))"

text \<open>
  Modelled from the spec: \<open>scan\<close> over a file tree, given as the list of its regular
  files in traversal order, leaving out the files of the caller's ignore set.
\<close>

definition scan :: "(string \<Rightarrow> bool) \<Rightarrow> (string \<times> string option) list \<Rightarrow> Rule list \<Rightarrow> Finding list" where
  "scan ignored tree rules =
     concat (map (scan_file rules) (filter (\<lambda>f. \<not> ignored (fst f)) tree))"

text \<open>The scenario of the spec: the password rule with the exception \<^verbatim>\<open>.env.example\<close>.\<close>

definition str :: "string \<Rightarrow> regex" where
  "str s = foldr (\<lambda>c r. Seq (OneOf [c]) r) s Eps"

definition whitespace :: regex where
  "whitespace = OneOf [CHR '' '', CHR 0x09, CHR 0x0A, CHR 0x0B, CHR 0x0C, CHR 0x0D]"

definition quote :: regex where
  "quote = OneOf [CHR 0x27, CHR 0x22]"

definition password_pattern :: regex where
  "password_pattern =
     Seq (str ''password'') (Seq (Star whitespace) (Seq (OneOf ''='') (Seq (Star whitespace)
       (Seq quote (Seq (Plus (NoneOf [CHR 0x27, CHR 0x22])) quote)))))"

definition password_rule :: Rule where
  "password_rule = \<lparr>pattern = password_pattern, name = ''Hardcoded passwords'',
     severity = Error, exceptions = [''.env.example''], appliesTo = None\<rparr>"

definition password_text :: string where
  "password_text = ''password = '' @ [CHR 0x22] @ ''x'' @ [CHR 0x22]"

definition nothing_ignored :: "string \<Rightarrow> bool" where
  "nothing_ignored p = False"

section \<open>Properties of the connection validation\<close>

subsection \<open>The counters and the report, step by step\<close>

lemma add_error_simps:
  "ERRORS (add_error f s) = ERRORS s + 1"
  "WARNINGS (add_error f s) = WARNINGS s"
  "CHECKED (add_error f s) = CHECKED s"
  "connections (add_error f s) = connections s"
  "report (add_error f s) = report s @ [f]"
  by (simp_all add: add_error_def)

lemma add_warning_simps:
  "ERRORS (add_warning f s) = ERRORS s"
  "WARNINGS (add_warning f s) = WARNINGS s + 1"
  "CHECKED (add_warning f s) = CHECKED s"
  "connections (add_warning f s) = connections s"
  "report (add_warning f s) = report s @ [f]"
  by (simp_all add: add_warning_def)

lemma check_modules_simps:
  "ERRORS (check_modules ex f t s) = ERRORS s + length (module_findings ex f t)"
  "WARNINGS (check_modules ex f t s) = WARNINGS s"
  "CHECKED (check_modules ex f t s) = CHECKED s"
  "connections (check_modules ex f t s) = connections s"
  "report (check_modules ex f t s) = report s @ module_findings ex f t"
  by (simp_all add: check_modules_def module_findings_def add_error_simps Let_def)

lemma check_fields_simps:
  "ERRORS (check_fields c s) = ERRORS s"
  "WARNINGS (check_fields c s) = WARNINGS s + length (field_findings c)"
  "CHECKED (check_fields c s) = CHECKED s"
  "connections (check_fields c s) = connections s"
  "report (check_fields c s) = report s @ field_findings c"
  by (simp_all add: check_fields_def field_findings_def add_warning_simps Let_def)

lemma report_check_contract:
  "report (check_contract ex c s) = report s @ report (check_contract ex c init)"
  by (simp add: check_contract_def init_def Let_def add_error_simps check_modules_simps check_fields_simps)

lemma ERRORS_check_contract:
  "ERRORS (check_contract ex c s) = ERRORS s + ERRORS (check_contract ex c init)"
  by (simp add: check_contract_def init_def Let_def add_error_simps check_modules_simps check_fields_simps)

lemma WARNINGS_check_contract:
  "WARNINGS (check_contract ex c s) = WARNINGS s + WARNINGS (check_contract ex c init)"
  by (simp add: check_contract_def init_def Let_def add_error_simps check_modules_simps check_fields_simps)

lemma CHECKED_check_contract:
  "CHECKED (check_contract ex c s) = CHECKED s + (if is_file c then 1 else 0)"
  by (simp add: check_contract_def init_def Let_def add_error_simps check_modules_simps check_fields_simps)

lemma connections_check_contract:
  "connections (check_contract ex c s) =
     (if reaches_checks c then store (conn_key (from_module c) (to_module c)) (connections s)
      else connections s)"
  by (simp add: check_contract_def reaches_checks_def Let_def add_error_simps check_modules_simps check_fields_simps)

lemma check_contracts_Nil: "check_contracts ex [] s = s"
  by (simp add: check_contracts_def)

lemma check_contracts_Cons: "check_contracts ex (c # cs) s = check_contracts ex cs (check_contract ex c s)"
  by (simp add: check_contracts_def)

lemma check_contracts_append:
  "check_contracts ex (cs @ ds) s = check_contracts ex ds (check_contracts ex cs s)"
  by (simp add: check_contracts_def)

lemma ERRORS_check_contracts:
  "ERRORS (check_contracts ex cs s) = ERRORS s + (\<Sum>c\<leftarrow>cs. ERRORS (check_contract ex c init))"
proof (induction cs arbitrary: s)
  case Nil
  show ?case by (simp add: check_contracts_Nil)
next
  case (Cons c cs)
  show ?case
    by (simp add: check_contracts_Cons Cons.IH ERRORS_check_contract [of ex c s])
qed

lemma WARNINGS_check_contracts:
  "WARNINGS (check_contracts ex cs s) = WARNINGS s + (\<Sum>c\<leftarrow>cs. WARNINGS (check_contract ex c init))"
proof (induction cs arbitrary: s)
  case Nil
  show ?case by (simp add: check_contracts_Nil)
next
  case (Cons c cs)
  show ?case
    by (simp add: check_contracts_Cons Cons.IH WARNINGS_check_contract [of ex c s])
qed

lemma CHECKED_check_contracts:
  "CHECKED (check_contracts ex cs s) = CHECKED s + length (filter is_file cs)"
  by (induction cs arbitrary: s) (simp_all add: check_contracts_Nil check_contracts_Cons CHECKED_check_contract)

lemma report_check_contracts:
  "report (check_contracts ex cs s) = report s @ concat (map (\<lambda>c. report (check_contract ex c init)) cs)"
proof (induction cs arbitrary: s)
  case Nil
  show ?case by (simp add: check_contracts_Nil)
next
  case (Cons c cs)
  show ?case
    by (simp add: check_contracts_Cons Cons.IH report_check_contract [of ex c s])
qed

lemma set_store: "set (store k ks) = insert k (set ks)"
  by (auto simp: store_def)

lemma set_connections_check_contracts:
  "set (connections (check_contracts ex cs s)) =
     set (connections s) \<union> {conn_key (from_module c) (to_module c) | c. c \<in> set cs \<and> reaches_checks c}"
proof (induction cs arbitrary: s)
  case Nil
  show ?case by (simp add: check_contracts_Nil)
next
  case (Cons c cs)
  show ?case
    by (auto simp: check_contracts_Cons Cons.IH connections_check_contract set_store)
qed

lemma fold_circular_step:
  "ERRORS (fold (circular_step keys) ks s) = ERRORS s"
  "WARNINGS (fold (circular_step keys) ks s) = WARNINGS s + length (circular_of keys ks)"
  "CHECKED (fold (circular_step keys) ks s) = CHECKED s"
  "connections (fold (circular_step keys) ks s) = connections s"
  "report (fold (circular_step keys) ks s) = report s @ circular_of keys ks"
  by (induction ks arbitrary: s)
     (simp_all add: circular_of_def circular_step_def Let_def add_warning_simps)

lemma check_circular_simps:
  "ERRORS (check_circular s) = ERRORS s"
  "WARNINGS (check_circular s) = WARNINGS s + length (circular_of (connections s) (connections s))"
  "CHECKED (check_circular s) = CHECKED s"
  "connections (check_circular s) = connections s"
  "report (check_circular s) = report s @ circular_of (connections s) (connections s)"
  by (simp_all add: check_circular_def fold_circular_step)

lemma cut_f1_conn_key: "CHR ''-'' \<notin> set f \<Longrightarrow> cut_f1 CHR ''-'' (conn_key f t) = f"
  by (simp add: cut_f1_def conn_key_def takeWhile_append)

lemma cut_f2_conn_key:
  "CHR ''>'' \<notin> set f \<Longrightarrow> CHR ''>'' \<notin> set t \<Longrightarrow> cut_f2 CHR ''>'' (conn_key f t) = t"
  by (auto simp: cut_f2_def conn_key_def takeWhile_append dropWhile_append)

lemma contract_report:
  "report (check_contract ex c init) =
     (if \<not> is_file c then []
      else if \<not> json_ok c then [InvalidJson]
      else if from_module c = [] \<or> to_module c = [] then [MissingFromTo]
      else module_findings ex (from_module c) (to_module c) @ field_findings c)"
  by (simp add: check_contract_def init_def Let_def add_error_simps check_modules_simps check_fields_simps)

lemma no_circular_contract: "filter is_circular (report (check_contract ex c init)) = []"
  by (simp add: contract_report module_findings_def field_findings_def)

lemma no_circular_contracts:
  "filter is_circular (concat (map (\<lambda>c. report (check_contract ex c init)) cs)) = []"
  by (induction cs) (simp_all add: no_circular_contract)

lemma circular_of_all: "filter is_circular (circular_of keys ks) = circular_of keys ks"
  by (induction ks) (simp_all add: circular_of_def)

lemma init_simps:
  "ERRORS init = 0" "WARNINGS init = 0" "CHECKED init = 0" "connections init = []" "report init = []"
  by (simp_all add: init_def)

lemma report_validate:
  "report (validate ex cs) =
     concat (map (\<lambda>c. report (check_contract ex c init)) cs) @
     circular_of (connections (check_contracts ex cs init)) (connections (check_contracts ex cs init))"
  by (simp add: validate_def check_circular_simps report_check_contracts init_simps)

lemma circular_findings_validate:
  "circular_findings (validate ex cs) =
     circular_of (connections (check_contracts ex cs init)) (connections (check_contracts ex cs init))"
  by (simp add: circular_findings_def report_validate no_circular_contracts circular_of_all)

lemma validate_Nil: "validate ex [] = init"
  by (simp add: validate_def check_contracts_Nil check_circular_def init_simps)

lemma exit_code_init: "exit_code init = 0"
  by (simp add: exit_code_def init_simps)

lemma run_Some: "run ex (Some d) = (exit_code (validate ex (contracts d)), validate ex (contracts d))"
  by (simp add: run_def Let_def validate_Nil exit_code_init)

lemma count_severity_append:
  "count_severity (fs @ gs) s = count_severity fs s + count_severity gs s"
  by (simp add: count_severity_def)

lemma count_severity_concat:
  "count_severity (concat (map f cs)) s = (\<Sum>c\<leftarrow>cs. count_severity (f c) s)"
  by (induction cs) (simp_all add: count_severity_append, simp add: count_severity_def)

lemma count_severity_module_findings:
  "count_severity (module_findings ex f t) Error = length (module_findings ex f t)"
  "count_severity (module_findings ex f t) Warning = 0"
  by (simp_all add: count_severity_def module_findings_def)

lemma count_severity_field_findings:
  "count_severity (field_findings c) Error = 0"
  "count_severity (field_findings c) Warning = length (field_findings c)"
  by (simp_all add: count_severity_def field_findings_def)

lemma count_severity_circular_of:
  "count_severity (circular_of keys ks) Error = 0"
  "count_severity (circular_of keys ks) Warning = length (circular_of keys ks)"
  by (induction ks) (simp_all add: count_severity_def circular_of_def)

lemma ERRORS_contract:
  "ERRORS (check_contract ex c init) = count_severity (report (check_contract ex c init)) Error"
  by (simp add: contract_report count_severity_append count_severity_module_findings
      count_severity_field_findings)
    (simp add: check_contract_def init_def Let_def add_error_simps check_modules_simps
      check_fields_simps count_severity_def)

lemma WARNINGS_contract:
  "WARNINGS (check_contract ex c init) = count_severity (report (check_contract ex c init)) Warning"
  by (simp add: contract_report count_severity_append count_severity_module_findings
      count_severity_field_findings)
    (simp add: check_contract_def init_def Let_def add_error_simps check_modules_simps
      check_fields_simps count_severity_def)

lemma ERRORS_validate:
  "ERRORS (validate ex cs) = (\<Sum>c\<leftarrow>cs. ERRORS (check_contract ex c init))"
  by (simp add: validate_def check_circular_simps ERRORS_check_contracts init_simps)

lemma WARNINGS_validate:
  "WARNINGS (validate ex cs) =
     (\<Sum>c\<leftarrow>cs. WARNINGS (check_contract ex c init)) + length (circular_findings (validate ex cs))"
  by (simp add: circular_findings_validate)
    (simp add: validate_def check_circular_simps WARNINGS_check_contracts init_simps)

lemma ERRORS_count: "ERRORS (validate ex cs) = count_severity (report (validate ex cs)) Error"
  by (simp add: ERRORS_validate report_validate count_severity_append count_severity_concat
      count_severity_circular_of ERRORS_contract)

lemma WARNINGS_count: "WARNINGS (validate ex cs) = count_severity (report (validate ex cs)) Warning"
  by (simp add: WARNINGS_validate circular_findings_validate report_validate count_severity_append
      count_severity_concat count_severity_circular_of WARNINGS_contract)

lemma no_critical_contract: "count_severity (report (check_contract ex c init)) Critical = 0"
  by (simp add: contract_report count_severity_def module_findings_def field_findings_def)

lemma no_critical: "count_severity (report (validate ex cs)) Critical = 0"
proof -
  have "count_severity (circular_of keys ks) Critical = 0" for keys ks
    by (induction ks) (simp_all add: count_severity_def circular_of_def)
  then show ?thesis
    by (simp add: report_validate count_severity_append count_severity_concat no_critical_contract)
qed

lemma ok_evaluate_health:
  "ok (spec_evaluate fs health_failOn)
     \<longleftrightarrow> count_severity fs Error = 0 \<and> count_severity fs Critical = 0"
proof -
  have "list_ex (\<lambda>f. fail_enabled health_failOn (severity_of f) \<and> count_severity fs (severity_of f) \<noteq> 0) fs
        \<longleftrightarrow> (\<exists>f\<in>set fs. severity_of f = Error \<or> severity_of f = Critical)"
    unfolding list_ex_iff
  proof (rule bex_cong [OF refl])
    fix f assume f: "f \<in> set fs"
    then have "count_severity fs (severity_of f) \<noteq> 0"
      by (auto simp: count_severity_def filter_empty_conv)
    then show "(fail_enabled health_failOn (severity_of f) \<and> count_severity fs (severity_of f) \<noteq> 0)
                 = (severity_of f = Error \<or> severity_of f = Critical)"
      by (cases "severity_of f") (simp_all add: fail_enabled_def health_failOn_def)
  qed
  also have "\<dots> \<longleftrightarrow> \<not> (count_severity fs Error = 0 \<and> count_severity fs Critical = 0)"
    by (auto simp: count_severity_def filter_empty_conv)
  finally show ?thesis
    by (simp add: spec_evaluate_def)
qed

lemmas eval_defs = run_def validate_def check_contracts_def check_contract_def check_modules_def
  check_fields_def check_circular_def circular_step_def add_error_def add_warning_def store_def
  conn_key_def cut_f1_def cut_f2_def init_def exit_code_def connection_def registered_def
  circular_findings_def Let_def

subsection \<open>Mutual dependencies\<close>

text \<open>
  Claim C1, as the script has it. For two different module names \<open>a\<close> and \<open>b\<close> that
  contain neither a hyphen nor \<^verbatim>\<open>>\<close>, and exactly the two contract files \<open>a -> b\<close> and
  \<open>b -> a\<close>, the circular check warns once for each direction: there are exactly two
  circular-dependency warnings, one naming \<open>a\<close> and \<open>b\<close> and one naming \<open>b\<close> and \<open>a\<close>.
  Whether the two modules are registered plays no role.
\<close>

theorem mutual_pair_reported_per_direction:
  assumes ab: "a \<noteq> b" and ne: "a \<noteq> []" "b \<noteq> []"
    and a: "CHR ''-'' \<notin> set a" "CHR ''>'' \<notin> set a"
    and b: "CHR ''-'' \<notin> set b" "CHR ''>'' \<notin> set b"
    and c1: "is_file c1" "json_ok c1" "from_module c1 = a" "to_module c1 = b"
    and c2: "is_file c2" "json_ok c2" "from_module c2 = b" "to_module c2 = a"
  shows "length (circular_findings (snd (run module_exists (Some \<lparr>contracts = [c1, c2], other_json = n\<rparr>)))) = 2
       \<and> set (circular_findings (snd (run module_exists (Some \<lparr>contracts = [c1, c2], other_json = n\<rparr>))))
           = {Circular a b, Circular b a}"
proof -
  let ?ka = "conn_key a b" and ?kb = "conn_key b a"
  have fa: "cut_f1 CHR ''-'' ?ka = a" and fb: "cut_f1 CHR ''-'' ?kb = b"
    using a b by (simp_all add: cut_f1_conn_key)
  have ta: "cut_f2 CHR ''>'' ?ka = b" and tb: "cut_f2 CHR ''>'' ?kb = a"
    using a b by (simp_all add: cut_f2_conn_key)
  have neq: "?ka \<noteq> ?kb"
    using fa fb ab by metis
  have r1: "reaches_checks c1" and r2: "reaches_checks c2"
    using c1 c2 ne by (simp_all add: reaches_checks_def)
  have keys: "connections (check_contracts module_exists [c1, c2] init) = [?ka, ?kb]"
    using r1 r2 c1 c2 neq
    by (simp add: check_contracts_Cons check_contracts_Nil connections_check_contract
        init_simps store_def)
  have "circular_findings (validate module_exists [c1, c2]) = [Circular a b, Circular b a]"
    by (simp add: circular_findings_validate keys circular_of_def fa fb ta tb)
  then show ?thesis
    by (simp add: run_Some)
qed

theorem mutual_pair_reported_per_direction_witness:
  "''a'' \<noteq> ''b'' \<and> CHR ''-'' \<notin> set ''a'' \<and> CHR ''>'' \<notin> set ''b''
   \<and> length (circular_findings (snd (run (registered [''a'', ''b''])
        (Some \<lparr>contracts = [connection ''a'' ''b'', connection ''b'' ''a''], other_json = 0\<rparr>)))) = 2
   \<and> set (circular_findings (snd (run (registered [''a'', ''b''])
        (Some \<lparr>contracts = [connection ''a'' ''b'', connection ''b'' ''a''], other_json = 0\<rparr>))))
       = {Circular ''a'' ''b'', Circular ''b'' ''a''}"
  using mutual_pair_reported_per_direction [of "''a''" "''b''" "connection ''a'' ''b''"
      "connection ''b'' ''a''" "registered [''a'', ''b'']" 0]
  by (simp add: connection_def)

text \<open>
  Claim C1 as stated fails: with the registered modules \<open>a\<close> and \<open>b\<close> and the two
  contract files, the number of reported mutual dependencies is not one.
\<close>

theorem mutual_pair_not_reported_once:
  "length (circular_findings (snd (run (registered [''a'', ''b''])
     (Some \<lparr>contracts = [connection ''a'' ''b'', connection ''b'' ''a''], other_json = 0\<rparr>)))) \<noteq> 1"
  by (simp add: eval_defs)

text \<open>
  With hyphens in both names the key is cut at the first hyphen
  (\<^verbatim>\<open>cut -d'-' -f1\<close>), the reverse key is never found, and nothing is reported.
\<close>

lemma kebab_case_pair_not_reported:
  "circular_findings (snd (run (registered [''user-auth'', ''pricing-engine''])
     (Some \<lparr>contracts = [connection ''user-auth'' ''pricing-engine'',
                          connection ''pricing-engine'' ''user-auth''], other_json = 0\<rparr>))) = []"
  by (simp add: eval_defs)

subsection \<open>Exit code\<close>

text \<open>
  Claim C2, as the script has it. The script does not read \<^verbatim>\<open>failOn\<close>: the run fails
  (exit code 1) if and only if there is at least one error finding. This is the
  decision rule of the spec for the \<^verbatim>\<open>failOn\<close> of CERBER.md (critical and error on,
  warning off): the run fails if and only if the severity aggregator, under that
  \<^verbatim>\<open>failOn\<close>, says not ok about the findings of the run. The counters \<^verbatim>\<open>ERRORS\<close>
  and \<^verbatim>\<open>WARNINGS\<close> are the numbers of error and warning findings, and the exit code
  is 0 or 1: warnings alone never fail the run.
\<close>

theorem run_fails_iff_error_finding:
  "(fst (run module_exists dir) \<noteq> 0) = (\<not> ok (spec_evaluate (report (snd (run module_exists dir))) health_failOn))
   \<and> (fst (run module_exists dir) \<noteq> 0) = (count_severity (report (snd (run module_exists dir))) Error \<noteq> 0)
   \<and> ERRORS (snd (run module_exists dir)) = count_severity (report (snd (run module_exists dir))) Error
   \<and> WARNINGS (snd (run module_exists dir)) = count_severity (report (snd (run module_exists dir))) Warning
   \<and> (fst (run module_exists dir) = 0 \<or> fst (run module_exists dir) = 1)"
proof (cases dir)
  case None
  then show ?thesis
    by (simp add: run_def init_simps ok_evaluate_health count_severity_def)
next
  case (Some d)
  then show ?thesis
    by (simp add: run_Some ok_evaluate_health no_critical ERRORS_count [symmetric]
        WARNINGS_count [symmetric] exit_code_def)
qed

theorem run_fails_iff_error_finding_witness:
  "fst (run (registered [''a''])
     (Some \<lparr>contracts = [connection ''a'' ''ghost'', (connection ''a'' ''a'')\<lparr>has_version := False\<rparr>],
            other_json = 0\<rparr>)) = 1
   \<and> ERRORS (snd (run (registered [''a''])
     (Some \<lparr>contracts = [connection ''a'' ''ghost'', (connection ''a'' ''a'')\<lparr>has_version := False\<rparr>],
            other_json = 0\<rparr>))) = 1
   \<and> \<not> ok (spec_evaluate (report (snd (run (registered [''a''])
     (Some \<lparr>contracts = [connection ''a'' ''ghost'', (connection ''a'' ''a'')\<lparr>has_version := False\<rparr>],
            other_json = 0\<rparr>)))) health_failOn)"
  using run_fails_iff_error_finding [of "registered [''a'']"
      "Some \<lparr>contracts = [connection ''a'' ''ghost'', (connection ''a'' ''a'')\<lparr>has_version := False\<rparr>],
            other_json = 0\<rparr>"]
  by (simp add: eval_defs)

text \<open>
  Claim C2 as stated fails: the exit code does not follow what \<^verbatim>\<open>failOn\<close> enables.
  With warning enabled, a run with two warnings and no error has a finding of an
  enabled severity (the aggregator says not ok) and still exits with 0; with error
  disabled, a run with an error finding has no finding of an enabled severity (the
  aggregator says ok) and still exits with 1.
\<close>

theorem exit_code_ignores_failOn:
  "fst (run (registered [''a'', ''b''])
     (Some \<lparr>contracts = [connection ''a'' ''b'', connection ''b'' ''a''], other_json = 0\<rparr>)) = 0
   \<and> \<not> ok (spec_evaluate (report (snd (run (registered [''a'', ''b''])
     (Some \<lparr>contracts = [connection ''a'' ''b'', connection ''b'' ''a''], other_json = 0\<rparr>))))
       \<lparr>critical = True, error = True, warning = True\<rparr>)
   \<and> fst (run (registered [''a''])
     (Some \<lparr>contracts = [connection ''a'' ''ghost''], other_json = 0\<rparr>)) = 1
   \<and> ok (spec_evaluate (report (snd (run (registered [''a''])
     (Some \<lparr>contracts = [connection ''a'' ''ghost''], other_json = 0\<rparr>))))
       \<lparr>critical = True, error = False, warning = False\<rparr>)"
  by (simp add: eval_defs spec_evaluate_def fail_enabled_def count_severity_def)

text \<open>Two warnings and no error: the run passes.\<close>

lemma warnings_only_pass:
  "run (registered [''a'', ''b''])
     (Some \<lparr>contracts = [connection ''a'' ''b'', connection ''b'' ''a''], other_json = 0\<rparr>)
   = (0, \<lparr>ERRORS = 0, WARNINGS = 2, CHECKED = 2, connections = [''a->b'', ''b->a''],
          report = [Circular ''a'' ''b'', Circular ''b'' ''a'']\<rparr>)"
  by (simp add: eval_defs)

subsection \<open>Unresolved endpoints\<close>

text \<open>
  Claim C3, as the script has it. For a contract file that passes the syntax check and
  has both \<open>from\<close> and \<open>to\<close>, the error findings are exactly one module-not-found
  error for each endpoint that is not registered (\<open>from\<close> first), and \<^verbatim>\<open>ERRORS\<close>
  grows by their number. The connection is stored in the table of the circular check
  all the same: its key is among the connections at the end of the run.
\<close>

theorem dangling_reference_counted_and_stored:
  assumes "c \<in> set cs" and "is_file c" and "json_ok c"
    and "from_module c \<noteq> []" and "to_module c \<noteq> []"
  shows "filter (\<lambda>f. severity_of f = Error) (report (check_contract module_exists c init))
           = (if module_exists (from_module c) then [] else [ModuleNotFound (from_module c)])
             @ (if module_exists (to_module c) then [] else [ModuleNotFound (to_module c)])
       \<and> ERRORS (check_contract module_exists c s)
           = ERRORS s + (if module_exists (from_module c) then 0 else 1)
                      + (if module_exists (to_module c) then 0 else 1)
       \<and> conn_key (from_module c) (to_module c)
           \<in> set (connections (snd (run module_exists (Some \<lparr>contracts = cs, other_json = n\<rparr>))))"
proof -
  have r: "reaches_checks c"
    using assms by (simp add: reaches_checks_def)
  have "filter (\<lambda>f. severity_of f = Error) (field_findings c) = []"
    by (simp add: field_findings_def)
  then have 1: "filter (\<lambda>f. severity_of f = Error) (report (check_contract module_exists c init))
           = (if module_exists (from_module c) then [] else [ModuleNotFound (from_module c)])
             @ (if module_exists (to_module c) then [] else [ModuleNotFound (to_module c)])"
    using assms by (simp add: contract_report module_findings_def)
  have 2: "ERRORS (check_contract module_exists c s)
           = ERRORS s + (if module_exists (from_module c) then 0 else 1)
                      + (if module_exists (to_module c) then 0 else 1)"
    using assms
    by (simp add: check_contract_def Let_def check_fields_simps check_modules_simps
        module_findings_def)
  have 3: "conn_key (from_module c) (to_module c)
           \<in> set (connections (validate module_exists cs))"
    using assms(1) r
    by (auto simp: validate_def check_circular_simps set_connections_check_contracts)
  show ?thesis
    using 1 2 3 by (simp add: run_Some)
qed

theorem dangling_reference_counted_and_stored_witness:
  "connection ''a'' ''ghost'' \<in> set [connection ''a'' ''ghost'']
   \<and> \<not> registered [''a''] ''ghost''
   \<and> filter (\<lambda>f. severity_of f = Error)
        (report (check_contract (registered [''a'']) (connection ''a'' ''ghost'') init))
       = [ModuleNotFound ''ghost'']
   \<and> ERRORS (check_contract (registered [''a'']) (connection ''a'' ''ghost'') init) = 1
   \<and> ''a->ghost'' \<in> set (connections (snd (run (registered [''a''])
        (Some \<lparr>contracts = [connection ''a'' ''ghost''], other_json = 0\<rparr>))))"
  using dangling_reference_counted_and_stored [of "connection ''a'' ''ghost''"
      "[connection ''a'' ''ghost'']" "registered [''a'']" init 0]
  by (simp add: connection_def registered_def conn_key_def init_def)

text \<open>
  Claim C3 as stated fails: \<open>ghost\<close> is not registered, yet both connections naming it
  are in the table of the circular check, and the check reports a circular dependency
  through it.
\<close>

theorem dangling_connection_stored_as_edge:
  "\<not> registered [''a''] ''ghost''
   \<and> conn_key ''a'' ''ghost'' \<in> set (connections (snd (run (registered [''a''])
        (Some \<lparr>contracts = [connection ''a'' ''ghost'', connection ''ghost'' ''a''], other_json = 0\<rparr>))))
   \<and> Circular ''a'' ''ghost'' \<in> set (circular_findings (snd (run (registered [''a''])
        (Some \<lparr>contracts = [connection ''a'' ''ghost'', connection ''ghost'' ''a''], other_json = 0\<rparr>))))"
  by (simp add: eval_defs)

subsection \<open>Missing fields\<close>

text \<open>
  Claim C4, as the script has it. For a contract file that passes the syntax check:
  when \<open>from\<close> or \<open>to\<close> is missing, the file yields exactly one finding, the
  error for the missing field, and no warning; when both are there, a missing
  \<open>version\<close> and a missing \<open>breaking_changes\<close> each yield their warning (and only
  then), the warnings count the missing recommended fields, and the only errors are
  those of unresolved endpoints.
\<close>

theorem missing_field_severities:
  assumes "is_file c" and "json_ok c"
  shows "(from_module c = [] \<or> to_module c = [] \<longrightarrow>
            report (check_contract module_exists c init) = [MissingFromTo]
            \<and> ERRORS (check_contract module_exists c init) = 1
            \<and> WARNINGS (check_contract module_exists c init) = 0)
       \<and> (from_module c \<noteq> [] \<and> to_module c \<noteq> [] \<longrightarrow>
            (MissingVersion \<in> set (report (check_contract module_exists c init)) \<longleftrightarrow> \<not> has_version c)
            \<and> (MissingBreakingChanges \<in> set (report (check_contract module_exists c init))
                 \<longleftrightarrow> \<not> has_breaking_changes c)
            \<and> WARNINGS (check_contract module_exists c init)
                = (if has_interface c then 0 else 1) + (if has_version c then 0 else 1)
                  + (if has_breaking_changes c then 0 else 1)
            \<and> ERRORS (check_contract module_exists c init)
                = length (module_findings module_exists (from_module c) (to_module c)))
       \<and> severity_of MissingFromTo = Error
       \<and> severity_of MissingVersion = Warning
       \<and> severity_of MissingBreakingChanges = Warning"
proof -
  have w: "WARNINGS (check_contract module_exists c init)
      = count_severity (report (check_contract module_exists c init)) Warning"
    by (rule WARNINGS_contract)
  have e: "ERRORS (check_contract module_exists c init)
      = count_severity (report (check_contract module_exists c init)) Error"
    by (rule ERRORS_contract)
  show ?thesis
    unfolding w e using assms
    by (simp add: contract_report count_severity_append count_severity_module_findings
        count_severity_field_findings)
      (simp add: field_findings_def module_findings_def count_severity_def)
qed

theorem missing_field_severities_witness:
  "report (check_contract (registered [''a'', ''b''])
      ((connection ''a'' ''b'')\<lparr>has_version := False\<rparr>) init) = [MissingVersion]
   \<and> WARNINGS (check_contract (registered [''a'', ''b''])
      ((connection ''a'' ''b'')\<lparr>has_version := False\<rparr>) init) = 1
   \<and> ERRORS (check_contract (registered [''a'', ''b''])
      ((connection ''a'' ''b'')\<lparr>has_version := False\<rparr>) init) = 0
   \<and> report (check_contract (registered [''a'', ''b''])
      ((connection [] ''b'')\<lparr>has_version := False\<rparr>) init) = [MissingFromTo]"
  using missing_field_severities [of "(connection ''a'' ''b'')\<lparr>has_version := False\<rparr>"
      "registered [''a'', ''b'']"]
    missing_field_severities [of "(connection [] ''b'')\<lparr>has_version := False\<rparr>"
      "registered [''a'', ''b'']"]
  by (simp add: eval_defs module_findings_def)

text \<open>
  Claim C4 as stated fails: a contract file without \<open>from\<close> and without \<open>version\<close>
  yields the error alone; the missing \<open>version\<close> produces no warning.
\<close>

theorem missing_version_masked_by_missing_from:
  "\<not> has_version ((connection [] ''b'')\<lparr>has_version := False\<rparr>)
   \<and> report (check_contract (registered [''a'', ''b''])
        ((connection [] ''b'')\<lparr>has_version := False\<rparr>) init) = [MissingFromTo]
   \<and> count_severity (report (check_contract (registered [''a'', ''b''])
        ((connection [] ''b'')\<lparr>has_version := False\<rparr>) init)) Warning = 0"
  by (simp add: eval_defs count_severity_def)

subsection \<open>Every contract file is processed\<close>

text \<open>
  Claim C5. For every sequence of contract files in an existing contracts directory:
  \<^verbatim>\<open>CHECKED\<close> is the number of regular files among them; \<^verbatim>\<open>ERRORS\<close> is the sum of
  what each file yields on its own, and \<^verbatim>\<open>WARNINGS\<close> that sum plus the warnings of the
  circular check; the report is the findings of each file in turn, followed by the
  circular warnings. The loop goes on behind any file, whatever the file produced.
\<close>

theorem every_contract_processed:
  "CHECKED (snd (run module_exists (Some d))) = length (filter is_file (contracts d))
   \<and> ERRORS (snd (run module_exists (Some d)))
       = (\<Sum>c\<leftarrow>contracts d. ERRORS (check_contract module_exists c init))
   \<and> WARNINGS (snd (run module_exists (Some d)))
       = (\<Sum>c\<leftarrow>contracts d. WARNINGS (check_contract module_exists c init))
         + length (circular_findings (snd (run module_exists (Some d))))
   \<and> report (snd (run module_exists (Some d)))
       = concat (map (\<lambda>c. report (check_contract module_exists c init)) (contracts d))
         @ circular_findings (snd (run module_exists (Some d)))
   \<and> check_contracts module_exists (cs @ c # ds) s
       = check_contracts module_exists ds (check_contract module_exists c (check_contracts module_exists cs s))"
proof -
  have "CHECKED (validate module_exists (contracts d)) = length (filter is_file (contracts d))"
    by (simp add: validate_def check_circular_simps CHECKED_check_contracts init_simps)
  moreover have "report (validate module_exists (contracts d))
       = concat (map (\<lambda>c. report (check_contract module_exists c init)) (contracts d))
         @ circular_findings (validate module_exists (contracts d))"
    by (simp add: circular_findings_validate report_validate)
  ultimately show ?thesis
    by (simp add: run_Some ERRORS_validate WARNINGS_validate check_contracts_append
        check_contracts_Cons)
qed

theorem every_contract_processed_witness:
  "CHECKED (snd (run (registered [''a''])
      (Some \<lparr>contracts = [(connection ''a'' ''b'')\<lparr>json_ok := False\<rparr>, connection ''a'' ''ghost'',
                           (connection ''a'' ''a'')\<lparr>has_version := False\<rparr>], other_json = 0\<rparr>))) = 3
   \<and> ERRORS (snd (run (registered [''a''])
      (Some \<lparr>contracts = [(connection ''a'' ''b'')\<lparr>json_ok := False\<rparr>, connection ''a'' ''ghost'',
                           (connection ''a'' ''a'')\<lparr>has_version := False\<rparr>], other_json = 0\<rparr>))) = 2
   \<and> WARNINGS (snd (run (registered [''a''])
      (Some \<lparr>contracts = [(connection ''a'' ''b'')\<lparr>json_ok := False\<rparr>, connection ''a'' ''ghost'',
                           (connection ''a'' ''a'')\<lparr>has_version := False\<rparr>], other_json = 0\<rparr>))) = 2"
  using every_contract_processed [of "registered [''a'']"
      "\<lparr>contracts = [(connection ''a'' ''b'')\<lparr>json_ok := False\<rparr>, connection ''a'' ''ghost'',
                           (connection ''a'' ''a'')\<lparr>has_version := False\<rparr>], other_json = 0\<rparr>"]
  by (simp add: eval_defs)

subsection \<open>Self-loops\<close>

text \<open>
  Claim C8, as the script has it. A contract file whose \<open>from\<close> and \<open>to\<close> are the
  same name \<open>a\<close> (without hyphen and without \<^verbatim>\<open>>\<close>) is reported by the circular check
  itself, as the warning for the pair \<open>a\<close>, \<open>a\<close>, whatever other files there are. The
  file yields nothing else than what any contract file yields: the findings for
  unresolved endpoints and for missing recommended fields. There is no finding of its
  own for a self-loop.
\<close>

theorem self_loop_reported_as_circular:
  assumes "c \<in> set cs" and "is_file c" and "json_ok c"
    and "from_module c = a" and "to_module c = a" and "a \<noteq> []"
    and "CHR ''-'' \<notin> set a" and "CHR ''>'' \<notin> set a"
  shows "Circular a a
           \<in> set (circular_findings (snd (run module_exists (Some \<lparr>contracts = cs, other_json = n\<rparr>))))
       \<and> severity_of (Circular a a) = Warning
       \<and> report (check_contract module_exists c init)
           = module_findings module_exists a a @ field_findings c"
proof -
  let ?k = "conn_key a a"
  let ?keys = "connections (check_contracts module_exists cs init)"
  have "reaches_checks c"
    using assms by (simp add: reaches_checks_def)
  then have k: "?k \<in> set ?keys"
    using assms(1,4,5) by (auto simp: set_connections_check_contracts)
  have f: "cut_f1 CHR ''-'' ?k = a" and t: "cut_f2 CHR ''>'' ?k = a"
    using assms by (simp_all add: cut_f1_conn_key cut_f2_conn_key)
  have "Circular (cut_f1 CHR ''-'' ?k) (cut_f2 CHR ''>'' ?k) \<in> set (circular_of ?keys ?keys)"
    unfolding circular_of_def using k by (simp add: f t image_iff) (metis f k t)
  then have "Circular a a \<in> set (circular_findings (validate module_exists cs))"
    by (simp add: circular_findings_validate f t)
  moreover have "report (check_contract module_exists c init)
           = module_findings module_exists a a @ field_findings c"
    using assms by (simp add: contract_report)
  ultimately show ?thesis
    by (simp add: run_Some)
qed

theorem self_loop_reported_as_circular_witness:
  "connection ''a'' ''a'' \<in> set [connection ''a'' ''a''] \<and> CHR ''-'' \<notin> set ''a''
   \<and> Circular ''a'' ''a'' \<in> set (circular_findings (snd (run (registered [''a''])
        (Some \<lparr>contracts = [connection ''a'' ''a''], other_json = 0\<rparr>))))"
  using self_loop_reported_as_circular [of "connection ''a'' ''a''" "[connection ''a'' ''a'']"
      "''a''" "registered [''a'']" 0]
  by (simp add: connection_def)

text \<open>
  Claim C8 as stated fails: the only thing the run reports for the self-loop of the
  registered module \<open>a\<close> is a circular dependency, so the self-loop is in the cycle report.
\<close>

theorem self_loop_in_cycle_report:
  "from_module (connection ''a'' ''a'') = to_module (connection ''a'' ''a'')
   \<and> report (snd (run (registered [''a''])
        (Some \<lparr>contracts = [connection ''a'' ''a''], other_json = 0\<rparr>))) = [Circular ''a'' ''a'']
   \<and> circular_findings (snd (run (registered [''a''])
        (Some \<lparr>contracts = [connection ''a'' ''a''], other_json = 0\<rparr>))) \<noteq> []"
  by (simp add: eval_defs)

section \<open>Properties of adding a module\<close>

text \<open>
  Claim C6, as the script has it. Adding a module whose directory exists already fails
  with exit code 1 and changes nothing: the registry is the same afterwards, so its
  size is unchanged and looking the name up gives the record it held before.
\<close>

theorem existing_module_rejected:
  "fs MODULE_NAME = Some d \<Longrightarrow>
     add_module module_md MODULE_NAME fs = (1, fs)
     \<and> snd (add_module module_md MODULE_NAME fs) MODULE_NAME = Some d
     \<and> dom (snd (add_module module_md MODULE_NAME fs)) = dom fs"
  by (auto simp: add_module_def)

theorem existing_module_rejected_witness:
  "snd (add_module ''v1'' ''payment-gateway'' no_modules) ''payment-gateway''
     = Some (new_module_dir ''v1'')
   \<and> add_module ''v2'' ''payment-gateway'' (snd (add_module ''v1'' ''payment-gateway'' no_modules))
     = (1, snd (add_module ''v1'' ''payment-gateway'' no_modules))"
proof -
  have h: "snd (add_module ''v1'' ''payment-gateway'' no_modules) ''payment-gateway''
     = Some (new_module_dir ''v1'')"
    by (simp add: add_module_def no_modules_def)
  show ?thesis
    using h existing_module_rejected [of "snd (add_module ''v1'' ''payment-gateway'' no_modules)"
        "''payment-gateway''" "new_module_dir ''v1''" "''v2''"]
    by simp
qed

text \<open>
  Claim C6 as stated fails: after \<^verbatim>\<open>payment-gateway\<close> has been added with one text
  for \<^verbatim>\<open>MODULE.md\<close>, adding it again with another text exits with 1, and the
  registry still holds the first text.
\<close>

theorem second_registration_fails:
  "fst (add_module ''v1'' ''payment-gateway'' no_modules) = 0
   \<and> fst (add_module ''v2'' ''payment-gateway''
        (snd (add_module ''v1'' ''payment-gateway'' no_modules))) = 1
   \<and> snd (add_module ''v2'' ''payment-gateway''
        (snd (add_module ''v1'' ''payment-gateway'' no_modules))) ''payment-gateway''
      = Some (new_module_dir ''v1'')
   \<and> new_module_dir ''v1'' ''MODULE.md'' = Some ''v1''
   \<and> new_module_dir ''v1'' \<noteq> new_module_dir ''v2''"
proof -
  have "new_module_dir ''v1'' ''MODULE.md'' \<noteq> new_module_dir ''v2'' ''MODULE.md''"
    by (simp add: new_module_dir_def)
  then have "new_module_dir ''v1'' \<noteq> new_module_dir ''v2''"
    by metis
  then show ?thesis
    by (simp add: add_module_def no_modules_def) (simp add: new_module_dir_def)
qed

section \<open>Properties of the pattern matcher\<close>

lemma scan_rule_finding:
  "f \<in> set (scan_rule r p text) \<Longrightarrow> rule f = Some r \<and> file_path f = p \<and> \<not> excepted r p"
  by (auto simp: scan_rule_def split: if_splits)

lemma scan_file_finding:
  "f \<in> set (scan_file rules (p, c)) \<Longrightarrow> rule f = Some r \<Longrightarrow> file_path f = p \<and> \<not> excepted r p"
  by (cases c) (auto simp: scan_file_def dest: scan_rule_finding)

lemma scan_finding:
  assumes "f \<in> set (scan ignored tree rules)" and "rule f = Some r"
  shows "\<not> excepted r (file_path f)"
proof -
  from assms(1) obtain p c where "f \<in> set (scan_file rules (p, c))"
    by (auto simp: scan_def)
  from scan_file_finding [OF this assms(2)] show ?thesis
    by simp
qed

text \<open>
  Claim C7. For every rule, every file tree and every path that matches one of the
  rule's exception globs, the scan holds no finding of that rule for that path,
  whatever the file contains. In the scenario, the password rule with the exception
  \<^verbatim>\<open>.env.example\<close> gives exactly one finding, of severity error, for \<^verbatim>\<open>config.ts\<close>
  containing the password assignment, and none for \<^verbatim>\<open>.env.example\<close> with the same text.
\<close>

theorem excepted_file_contributes_nothing:
  "(excepted r path \<longrightarrow>
      filter (\<lambda>f. rule f = Some r \<and> file_path f = path) (scan ignored tree rules) = [])
   \<and> scan nothing_ignored [(''config.ts'', Some password_text)] [password_rule]
       = [\<lparr>rule = Some password_rule, file_path = ''config.ts'', finding_severity = Error,
           message = ''Hardcoded passwords''\<rparr>]
   \<and> scan nothing_ignored [(''.env.example'', Some password_text)] [password_rule] = []"
proof (intro conjI impI)
  assume "excepted r path"
  then show "filter (\<lambda>f. rule f = Some r \<and> file_path f = path) (scan ignored tree rules) = []"
    by (auto simp: filter_empty_conv dest: scan_finding)
next
  have "count_matches password_pattern password_text = 1"
    by (simp add: password_pattern_def password_text_def str_def whitespace_def quote_def)
  then show "scan nothing_ignored [(''config.ts'', Some password_text)] [password_rule]
       = [\<lparr>rule = Some password_rule, file_path = ''config.ts'', finding_severity = Error,
           message = ''Hardcoded passwords''\<rparr>]"
    by (simp add: scan_def scan_file_def scan_rule_def excepted_def in_scope_def
        nothing_ignored_def) (simp add: password_rule_def)
next
  show "scan nothing_ignored [(''.env.example'', Some password_text)] [password_rule] = []"
    by (simp add: scan_def scan_file_def scan_rule_def excepted_def in_scope_def
        nothing_ignored_def password_rule_def)
qed

theorem excepted_file_contributes_nothing_witness:
  "excepted password_rule ''.env.example''
   \<and> count_matches (pattern password_rule) password_text = 1
   \<and> filter (\<lambda>f. rule f = Some password_rule \<and> file_path f = ''.env.example'')
        (scan nothing_ignored
           [(''.env.example'', Some password_text), (''config.ts'', Some password_text)]
           [password_rule]) = []
   \<and> length (scan nothing_ignored
           [(''.env.example'', Some password_text), (''config.ts'', Some password_text)]
           [password_rule]) = 1"
proof -
  have e: "excepted password_rule ''.env.example''"
    by (simp add: excepted_def password_rule_def)
  have c: "count_matches (pattern password_rule) password_text = 1"
    by (simp add: password_rule_def password_pattern_def password_text_def str_def
        whitespace_def quote_def)
  have n: "\<not> excepted password_rule ''config.ts''"
    by (simp add: excepted_def password_rule_def)
  have l: "length (scan nothing_ignored
           [(''.env.example'', Some password_text), (''config.ts'', Some password_text)]
           [password_rule]) = 1"
    using e c n by (simp add: scan_def scan_file_def scan_rule_def nothing_ignored_def in_scope_def)
      (simp add: password_rule_def)
  show ?thesis
    using e c l excepted_file_contributes_nothing [of password_rule "''.env.example''"
        nothing_ignored
        "[(''.env.example'', Some password_text), (''config.ts'', Some password_text)]"
        "[password_rule]"]
    by simp
qed

section \<open>Properties of the module system API\<close>

text \<open>
  Claim C9. Each of the nine exported functions of the module system throws an error
  whose message begins with \<^verbatim>\<open>Not implemented\<close>, on every input; none returns a value.
\<close>

theorem module_system_not_implemented:
  "throws_not_implemented (loadModule moduleName)
   \<and> throws_not_implemented (loadContract moduleName)
   \<and> throws_not_implemented (validateModule moduleName)
   \<and> throws_not_implemented (validateConnections u)
   \<and> throws_not_implemented (createFocusContext moduleName)
   \<and> throws_not_implemented (listModules u)
   \<and> throws_not_implemented (getModuleDependencies moduleName)
   \<and> throws_not_implemented (detectCircularDependencies u)
   \<and> throws_not_implemented (getModuleConnections moduleName)"
  by (simp add: loadModule_def loadContract_def validateModule_def validateConnections_def
      createFocusContext_def listModules_def getModuleDependencies_def
      detectCircularDependencies_def getModuleConnections_def)

theorem module_system_not_implemented_witness:
  "loadModule ''pricing-engine'' = Inl (JsError ''Not implemented - use bash scripts for now'')
   \<and> throws_not_implemented (detectCircularDependencies ())
   \<and> throws_not_implemented (getModuleConnections ''pricing-engine'')"
  using module_system_not_implemented [of "''pricing-engine''" "()"]
  by (simp add: loadModule_def)

section \<open>Properties of the feature flags\<close>

text \<open>
  \<^verbatim>\<open>process.env.NODE_ENV || "development"\<close> takes the default for an empty
  \<^verbatim>\<open>NODE_ENV\<close> as well, and an empty \<open>expiresAt\<close> is not checked.
\<close>

lemma currentEnv_empty: "currentEnv (Some []) = ''development''"
  by (simp add: currentEnv_def)

lemma currentEnv_set: "e \<noteq> [] \<Longrightarrow> currentEnv (Some e) = e"
  by (simp add: currentEnv_def)

text \<open>
  Claim C10. \<open>isFeatureEnabled\<close> returns true if and only if the flag is in the
  configuration, its \<open>enabled\<close> is true, its \<open>environments\<close>, when present and not
  empty, contain the current environment, and its \<open>expiresAt\<close>, when present, is not
  a date before now. A flag that is not in the configuration gives false. The current
  environment is \<^verbatim>\<open>development\<close> when \<^verbatim>\<open>NODE_ENV\<close> is not set.
\<close>

theorem isFeatureEnabled_iff:
  "(isFeatureEnabled featureFlags NODE_ENV parse now flag
     \<longleftrightarrow> (\<exists>config. featureFlags flag = Some config \<and> enabled config
            \<and> (\<forall>envs. environments config = Some envs \<and> envs \<noteq> []
                  \<longrightarrow> currentEnv NODE_ENV \<in> set envs)
            \<and> (\<forall>e. expiresAt config = Some e \<longrightarrow> \<not> later_than now (new_Date parse e))))
   \<and> (featureFlags flag = None \<longrightarrow> \<not> isFeatureEnabled featureFlags NODE_ENV parse now flag)
   \<and> currentEnv None = ''development''"
proof (cases "featureFlags flag")
  case None
  then show ?thesis
    by (simp add: isFeatureEnabled_def currentEnv_def)
next
  case (Some config)
  have envs: "(case environments config of None \<Rightarrow> False
                | Some envs \<Rightarrow> length envs > 0 \<and> currentEnv NODE_ENV \<notin> set envs)
              \<longleftrightarrow> \<not> (\<forall>envs. environments config = Some envs \<and> envs \<noteq> []
                        \<longrightarrow> currentEnv NODE_ENV \<in> set envs)"
    by (cases "environments config") auto
  have expiry: "(case expiresAt config of None \<Rightarrow> False
                  | Some e \<Rightarrow> e \<noteq> [] \<and> later_than now (new_Date parse e))
                \<longleftrightarrow> \<not> (\<forall>e. expiresAt config = Some e
                          \<longrightarrow> \<not> later_than now (new_Date parse e))"
    by (cases "expiresAt config") (auto simp: new_Date_def later_than_def)
  have default: "currentEnv None = ''development''"
    by (simp add: currentEnv_def)
  show ?thesis
    unfolding isFeatureEnabled_def Some option.case envs expiry
    using default by auto
qed

theorem isFeatureEnabled_iff_witness:
  "isFeatureEnabled (initializeFeatureFlags example_config) None example_parse 1700000000000 ''new-ui''
   \<and> \<not> isFeatureEnabled (initializeFeatureFlags example_config) (Some ''production'')
         example_parse 1700000000000 ''new-ui''
   \<and> \<not> isFeatureEnabled (initializeFeatureFlags example_config) None example_parse 1900000000000 ''new-ui''
   \<and> initializeFeatureFlags example_config ''missing'' = None
   \<and> \<not> isFeatureEnabled (initializeFeatureFlags example_config) None example_parse 1700000000000 ''missing''"
  using isFeatureEnabled_iff [of "initializeFeatureFlags example_config" None example_parse
      1700000000000 "''new-ui''"]
    isFeatureEnabled_iff [of "initializeFeatureFlags example_config" "Some ''production''"
      example_parse 1700000000000 "''new-ui''"]
    isFeatureEnabled_iff [of "initializeFeatureFlags example_config" None example_parse
      1900000000000 "''new-ui''"]
    isFeatureEnabled_iff [of "initializeFeatureFlags example_config" None example_parse
      1700000000000 "''missing''"]
  by (simp add: initializeFeatureFlags_def example_config_def defaultFlags_def example_parse_def
      currentEnv_def new_Date_def later_than_def map_add_def)

end
